theory Spec2Isabelle
  imports Complex_Main "HOL-Library.Word" "HOL-Library.Log_Nat"
begin

section \<open>Scalar values of the C++ program\<close>

subsection \<open>The type \<open>double\<close>\<close>

text \<open>
  The setters of \<^verbatim>\<open>vpKeyPoint\<close> compare \<^verbatim>\<open>double\<close> arguments with constants and, in
  \<^verbatim>\<open>setMatchingRatioThreshold\<close>, subtract and take an absolute value. A \<^verbatim>\<open>double\<close> is
  modelled as an IEEE 754 binary64 datum: a NaN, an infinity with its sign
  (\<open>True\<close> is negative), or a finite number given by a sign, an integral significand
  \<open>m\<close> and an exponent \<open>e\<close>, standing for \<open>\<plusminus> m * 2 ^ e\<close>. The finite binary64 numbers
  are exactly those with \<open>m < 2 ^ 53\<close> and \<open>- 1074 \<le> e \<le> 971\<close> (subnormals have
  \<open>e = - 1074\<close>); a number may have several such representations, which compare equal.
\<close>

datatype double = DNaN | DInf bool | DFin bool nat int

fun is_double :: "double \<Rightarrow> bool" where
  "is_double (DFin s m e) = (m < 2 ^ 53 \<and> - 1074 \<le> e \<and> e \<le> 971)"
| "is_double _ = True"

definition dval :: "bool \<Rightarrow> nat \<Rightarrow> int \<Rightarrow> real" where
  "dval s m e = (if s then - 1 else 1) * real m * 2 powi e"

text \<open>
  \<^verbatim>\<open>a < b\<close> on doubles: exact on the values, false as soon as one operand is a NaN.
  \<^verbatim>\<open>a > b\<close> is \<open>dless b a\<close>.
\<close>

fun dless :: "double \<Rightarrow> double \<Rightarrow> bool" where
  "dless (DFin s m e) (DFin t n f) = (dval s m e < dval t n f)"
| "dless (DFin s m e) (DInf t) = (\<not> t)"
| "dless (DInf s) (DFin t n f) = s"
| "dless (DInf s) (DInf t) = (s \<and> \<not> t)"
| "dless DNaN _ = False"
| "dless _ DNaN = False"

text \<open>
  Rounding to nearest, ties to even: \<open>rne M k\<close> is \<open>M / 2 ^ k\<close> rounded to an integer.
  \<open>dround s M E\<close> rounds the magnitude \<open>M * 2 ^ E\<close> to 53 significant bits; a carry
  out of the significand moves to the next binade, and a result beyond the largest
  finite number becomes an infinity. Differences of doubles have \<open>- 1074 \<le> E\<close>, so
  no underflow case arises.
\<close>

definition rne :: "nat \<Rightarrow> nat \<Rightarrow> nat" where
  "rne M k =
     (let q = M div 2 ^ k; r = M mod 2 ^ k
      in if 2 * r < 2 ^ k then q
         else if 2 ^ k < 2 * r then q + 1
         else if even q then q else q + 1)"

definition dround :: "bool \<Rightarrow> nat \<Rightarrow> int \<Rightarrow> double" where
  "dround s M E =
     (let k = floorlog 2 M - 53; q = rne M k
      in if q = 2 ^ 53
         then (if 971 < E + int k + 1 then DInf s else DFin s (2 ^ 52) (E + int k + 1))
         else (if 971 < E + int k then DInf s else DFin s q (E + int k)))"

definition signed_int :: "bool \<Rightarrow> nat \<Rightarrow> int" where
  "signed_int s m = (if s then - int m else int m)"

text \<open>
  \<^verbatim>\<open>a - b\<close> on doubles: the exact difference, computed on the common exponent
  \<open>min e f\<close>, then rounded. An exact zero is \<open>+0\<close> unless it is \<open>(-0) - (+0)\<close>.
\<close>

fun dsub :: "double \<Rightarrow> double \<Rightarrow> double" where
  "dsub (DFin s m e) (DFin t n f) =
     (let E = min e f;
          d = signed_int s m * 2 ^ nat (e - E) - signed_int t n * 2 ^ nat (f - E)
      in if d = 0 then DFin (m = 0 \<and> n = 0 \<and> s \<and> \<not> t) 0 E
         else dround (d < 0) (nat \<bar>d\<bar>) E)"
| "dsub (DFin s m e) (DInf t) = DInf (\<not> t)"
| "dsub (DInf s) (DFin t n f) = DInf s"
| "dsub (DInf s) (DInf t) = (if s = t then DNaN else DInf s)"
| "dsub DNaN _ = DNaN"
| "dsub _ DNaN = DNaN"

text \<open>\<^verbatim>\<open>std::fabs\<close>: clears the sign.\<close>

fun dabs :: "double \<Rightarrow> double" where
  "dabs (DFin s m e) = DFin False m e"
| "dabs (DInf s) = DInf False"
| "dabs DNaN = DNaN"

text \<open>
  The literals \<^verbatim>\<open>0.0\<close>, \<^verbatim>\<open>1.0\<close> and \<^verbatim>\<open>100.0\<close>, and
  \<^verbatim>\<open>std::numeric_limits<double>::epsilon()\<close>, which is \<open>2 ^ - 52\<close>.
\<close>

definition d_zero :: double where
  "d_zero = DFin False 0 0"

definition d_one :: double where
  "d_one = DFin False 1 0"

definition d_hundred :: double where
  "d_hundred = DFin False 100 0"

definition d_epsilon :: double where
  "d_epsilon = DFin False 1 (- 52)"

text \<open>
  What the documentation of the setters says about an argument, read on its value:
  strictly positive, non-positive, and inside the interval \<open>]0 ; 1]\<close>. A NaN is none
  of them.
\<close>

fun d_positive :: "double \<Rightarrow> bool" where
  "d_positive (DFin s m e) = (0 < dval s m e)"
| "d_positive (DInf s) = (\<not> s)"
| "d_positive DNaN = False"

fun d_nonpositive :: "double \<Rightarrow> bool" where
  "d_nonpositive (DFin s m e) = (dval s m e \<le> 0)"
| "d_nonpositive (DInf s) = s"
| "d_nonpositive DNaN = False"

fun in_unit_interval :: "double \<Rightarrow> bool" where
  "in_unit_interval (DFin s m e) = (0 < dval s m e \<and> dval s m e \<le> 1)"
| "in_unit_interval _ = False"

subsection \<open>The type \<open>int\<close>\<close>

text \<open>A C++ \<^verbatim>\<open>int\<close> is a 32-bit word read as a signed number by \<open>sint\<close>.\<close>

type_synonym cpp_int = "32 word"

section \<open>The class \<open>vpKeyPoint\<close>\<close>

subsection \<open>Types of the members\<close>

datatype vpFilterMatchingType =
    constantFactorDistanceThreshold
  | stdDistanceThreshold
  | ratioDistanceThreshold
  | stdAndRatioDistanceThreshold
  | noFilterMatching

datatype vpDetectionMethodType = detectionThreshold | detectionScore

text \<open>
  \<^verbatim>\<open>vpMatrix\<close> is declared outside the header; it is taken as the list of its rows, and
  the default-constructed \<^verbatim>\<open>vpMatrix()\<close> is the matrix without rows.
\<close>

type_synonym vpMatrix = "double list list"

definition vpMatrix_empty :: vpMatrix where
  "vpMatrix_empty = []"

text \<open>
  \<^verbatim>\<open>m_matcher\<close> is a \<^verbatim>\<open>cv::Ptr<cv::DescriptorMatcher>\<close>: \<open>None\<close> is the null pointer. The
  OpenCV object is represented by its table of named boolean parameters. What
  \<^verbatim>\<open>cv::Algorithm::set\<close> does to it belongs to OpenCV, so the methods that call it take
  it as the argument \<open>alg_set\<close>, which yields the updated object or the exception
  that OpenCV raises.
\<close>

type_synonym cv_DescriptorMatcher = "string \<Rightarrow> bool option"

datatype vpException_code = badValue

datatype exception = vpException vpException_code string | cv_Exception string

text \<open>
  A call either returns or leaves by an exception of type \<open>'e\<close>; both alternatives carry
  the state of the object afterwards.
\<close>

datatype ('e, 's) outcome = Returned 's | Thrown 'e 's

record vpKeyPoint =
  m_computeCovariance :: bool
  m_covarianceMatrix :: vpMatrix
  m_detectionMethod :: vpDetectionMethodType
  m_filterType :: vpFilterMatchingType
  m_matcher :: "cv_DescriptorMatcher option"
  m_matcherName :: string
  m_matchingFactorThreshold :: double
  m_matchingRatioThreshold :: double
  m_nbRansacIterations :: cpp_int
  m_nbRansacMinInlierCount :: cpp_int
  m_ransacConsensusPercentage :: double
  m_ransacReprojectionError :: double
  m_ransacThreshold :: double
  m_useBruteForceCrossCheck :: bool
  m_useConsensusPercentage :: bool
  m_useKnn :: bool
  m_useRansacVVS :: bool

subsection \<open>Inline methods of \<open>vpKeyPoint.h\<close>\<close>

text \<open>
  \<^verbatim>\<open>getCovarianceMatrix\<close> is \<^verbatim>\<open>const\<close> and has no \<^verbatim>\<open>throw\<close>: its result is the matrix it
  returns together with the lines it writes to \<^verbatim>\<open>std::cout\<close>.
\<close>

definition getCovarianceMatrix :: "vpKeyPoint \<Rightarrow> vpMatrix \<times> string list" where
  "getCovarianceMatrix k =
     (if \<not> m_computeCovariance k then
        (vpMatrix_empty,
         [''Warning : The covariance matrix has not been computed. See setCovarianceComputation() to do it.''])
      else if m_computeCovariance k \<and> \<not> m_useRansacVVS k then
        (vpMatrix_empty,
         [''Warning : The covariance matrix can only be computed with a Virtual Visual Servoing approach.'',
          ''Use setUseRansacVVS(true) to choose to use a pose estimation method based on a Virtual Visual Servoing approach.''])
      else (m_covarianceMatrix k, []))"

definition setCovarianceComputation :: "bool \<Rightarrow> vpKeyPoint \<Rightarrow> vpKeyPoint \<times> string list" where
  "setCovarianceComputation flag k =
     (k\<lparr>m_computeCovariance := flag\<rparr>,
      if \<not> m_useRansacVVS k then
        [''Warning : The covariance matrix can only be computed with a Virtual Visual Servoing approach.'',
         ''Use setUseRansacVVS(true) to choose to use a pose estimation method based on a Virtual Visual Servoing approach.'']
      else [])"

definition setDetectionMethod :: "vpDetectionMethodType \<Rightarrow> vpKeyPoint \<Rightarrow> vpKeyPoint" where
  "setDetectionMethod method k = k\<lparr>m_detectionMethod := method\<rparr>"

definition setUseRansacVVS :: "bool \<Rightarrow> vpKeyPoint \<Rightarrow> vpKeyPoint" where
  "setUseRansacVVS ransacVVS k = k\<lparr>m_useRansacVVS := ransacVVS\<rparr>"

definition setUseRansacConsensusPercentage :: "bool \<Rightarrow> vpKeyPoint \<Rightarrow> vpKeyPoint" where
  "setUseRansacConsensusPercentage usePercentage k = k\<lparr>m_useConsensusPercentage := usePercentage\<rparr>"

definition setFilterMatchingType :: "vpFilterMatchingType \<Rightarrow> vpKeyPoint \<Rightarrow> vpKeyPoint" where
  "setFilterMatchingType filterType k =
     (let k1 = k\<lparr>m_filterType := filterType\<rparr>
      in if filterType = ratioDistanceThreshold \<or> filterType = stdAndRatioDistanceThreshold
         then k1\<lparr>m_useKnn := True\<rparr>
         else k1\<lparr>m_useKnn := False\<rparr>)"

definition setMatchingFactorThreshold :: "double \<Rightarrow> vpKeyPoint \<Rightarrow> (exception, vpKeyPoint) outcome" where
  "setMatchingFactorThreshold factor k =
     (if dless d_zero factor then Returned (k\<lparr>m_matchingFactorThreshold := factor\<rparr>)
      else Thrown (vpException badValue ''The factor must be positive.'') k)"

definition setMatchingRatioThreshold :: "double \<Rightarrow> vpKeyPoint \<Rightarrow> (exception, vpKeyPoint) outcome" where
  "setMatchingRatioThreshold ratio k =
     (if dless d_zero ratio \<and>
         (dless ratio d_one \<or> dless (dabs (dsub ratio d_one)) d_epsilon)
      then Returned (k\<lparr>m_matchingRatioThreshold := ratio\<rparr>)
      else Thrown (vpException badValue ''The ratio must be in the interval ]0 ; 1].'') k)"

definition setRansacConsensusPercentage ::
  "double \<Rightarrow> vpKeyPoint \<Rightarrow> (exception, vpKeyPoint) outcome" where
  "setRansacConsensusPercentage percentage k =
     (if dless d_zero percentage \<and>
         (dless percentage d_hundred \<or> dless (dabs (dsub percentage d_hundred)) d_epsilon)
      then Returned (k\<lparr>m_ransacConsensusPercentage := percentage\<rparr>)
      else Thrown (vpException badValue ''The percentage must be in the interval ]0 ; 100].'') k)"

definition setRansacIteration :: "cpp_int \<Rightarrow> vpKeyPoint \<Rightarrow> (exception, vpKeyPoint) outcome" where
  "setRansacIteration nbIter k =
     (if 0 < sint nbIter then Returned (k\<lparr>m_nbRansacIterations := nbIter\<rparr>)
      else Thrown (vpException badValue ''The number of iterations must be greater than zero.'') k)"

definition setRansacReprojectionError :: "double \<Rightarrow> vpKeyPoint \<Rightarrow> (exception, vpKeyPoint) outcome" where
  "setRansacReprojectionError reprojectionError k =
     (if dless d_zero reprojectionError
      then Returned (k\<lparr>m_ransacReprojectionError := reprojectionError\<rparr>)
      else Thrown (vpException badValue
             ''The Ransac reprojection threshold must be positive as we deal with distance.'') k)"

definition setRansacMinInlierCount :: "cpp_int \<Rightarrow> vpKeyPoint \<Rightarrow> (exception, vpKeyPoint) outcome" where
  "setRansacMinInlierCount minCount k =
     (if 0 < sint minCount then Returned (k\<lparr>m_nbRansacMinInlierCount := minCount\<rparr>)
      else Thrown (vpException badValue ''The minimum number of inliers must be greater than zero.'') k)"

definition setRansacThreshold :: "double \<Rightarrow> vpKeyPoint \<Rightarrow> (exception, vpKeyPoint) outcome" where
  "setRansacThreshold threshold k =
     (if dless d_zero threshold then Returned (k\<lparr>m_ransacThreshold := threshold\<rparr>)
      else Thrown (vpException badValue
             ''The Ransac threshold must be positive as we deal with distance.'') k)"

text \<open>
  \<^verbatim>\<open>setUseBruteForceCrossCheck\<close> changes nothing but the object behind \<^verbatim>\<open>m_matcher\<close>, and
  only under its guard. When \<^verbatim>\<open>set\<close> raises, the exception leaves the method.
\<close>

definition setUseBruteForceCrossCheck ::
  "(cv_DescriptorMatcher \<Rightarrow> string \<Rightarrow> bool \<Rightarrow> exception + cv_DescriptorMatcher) \<Rightarrow>
   bool \<Rightarrow> vpKeyPoint \<Rightarrow> (exception, vpKeyPoint) outcome" where
  "setUseBruteForceCrossCheck alg_set useCrossCheck k =
     (case m_matcher k of
        None \<Rightarrow> Returned k
      | Some matcher \<Rightarrow>
          if \<not> m_useKnn k \<and> m_matcherName k = ''BruteForce'' then
            (case alg_set matcher ''crossCheck'' useCrossCheck of
               Inl ex \<Rightarrow> Thrown ex k
             | Inr matcher' \<Rightarrow> Returned (k\<lparr>m_matcher := Some matcher'\<rparr>))
          else Returned k)"

subsection \<open>Sequences of setter calls\<close>

text \<open>
  The setters whose bodies are in the header, as calls on an object. The object lives on
  after a call that throws; \<open>state_after\<close> is its state once the call is over, and
  \<open>fold (call_setter alg_set) calls k\<close> is its state after a sequence of calls.
\<close>

fun state_after :: "('e, 's) outcome \<Rightarrow> 's" where
  "state_after (Returned s) = s"
| "state_after (Thrown ex s) = s"

datatype setter_call =
    SetCovarianceComputation bool
  | SetDetectionMethod vpDetectionMethodType
  | SetFilterMatchingType vpFilterMatchingType
  | SetMatchingFactorThreshold double
  | SetMatchingRatioThreshold double
  | SetRansacConsensusPercentage double
  | SetRansacIteration cpp_int
  | SetRansacReprojectionError double
  | SetRansacMinInlierCount cpp_int
  | SetRansacThreshold double
  | SetUseBruteForceCrossCheck bool
  | SetUseRansacConsensusPercentage bool
  | SetUseRansacVVS bool

fun call_setter ::
  "(cv_DescriptorMatcher \<Rightarrow> string \<Rightarrow> bool \<Rightarrow> exception + cv_DescriptorMatcher) \<Rightarrow>
   setter_call \<Rightarrow> vpKeyPoint \<Rightarrow> vpKeyPoint" where
  "call_setter alg_set (SetCovarianceComputation flag) k = fst (setCovarianceComputation flag k)"
| "call_setter alg_set (SetDetectionMethod method) k = setDetectionMethod method k"
| "call_setter alg_set (SetFilterMatchingType filterType) k = setFilterMatchingType filterType k"
| "call_setter alg_set (SetMatchingFactorThreshold factor) k =
     state_after (setMatchingFactorThreshold factor k)"
| "call_setter alg_set (SetMatchingRatioThreshold ratio) k =
     state_after (setMatchingRatioThreshold ratio k)"
| "call_setter alg_set (SetRansacConsensusPercentage percentage) k =
     state_after (setRansacConsensusPercentage percentage k)"
| "call_setter alg_set (SetRansacIteration nbIter) k = state_after (setRansacIteration nbIter k)"
| "call_setter alg_set (SetRansacReprojectionError reprojectionError) k =
     state_after (setRansacReprojectionError reprojectionError k)"
| "call_setter alg_set (SetRansacMinInlierCount minCount) k =
     state_after (setRansacMinInlierCount minCount k)"
| "call_setter alg_set (SetRansacThreshold threshold) k =
     state_after (setRansacThreshold threshold k)"
| "call_setter alg_set (SetUseBruteForceCrossCheck useCrossCheck) k =
     state_after (setUseBruteForceCrossCheck alg_set useCrossCheck k)"
| "call_setter alg_set (SetUseRansacConsensusPercentage usePercentage) k =
     setUseRansacConsensusPercentage usePercentage k"
| "call_setter alg_set (SetUseRansacVVS ransacVVS) k = setUseRansacVVS ransacVVS k"

text \<open>
  The situation that the ratio-based policies must not meet: such a policy is selected
  while the matching pass is run with one neighbour only.
\<close>

definition ratio_filter_without_knn :: "vpKeyPoint \<Rightarrow> bool" where
  "ratio_filter_without_knn k \<longleftrightarrow>
     (m_filterType k = ratioDistanceThreshold \<or> m_filterType k = stdAndRatioDistanceThreshold) \<and>
     \<not> m_useKnn k"

section \<open>Stages whose code is outside the header\<close>

text \<open>
  \<^verbatim>\<open>vpKeyPoint.h\<close> only declares \<^verbatim>\<open>filterMatches\<close> and \<^verbatim>\<open>buildReference\<close>; their bodies are
  in \<^verbatim>\<open>vpKeyPoint.cpp\<close>, which is not among the sources. The definitions of this section
  follow the specification of the match filter (section 4.2) and of the reference model
  store (sections 3 and 4.1) instead. Distances and coordinates are real numbers here.
\<close>

text \<open>Modelled from the spec: the error taxonomy of section 7; the header has no such type.\<close>

datatype error =
    SizeMismatchError
  | InvalidParameterError
  | PreconditionError
  | InsufficientCorrespondencesError
  | PoseNotFoundError
  | NoMatchesError
  | CorruptFormatError

subsection \<open>Match filter\<close>

text \<open>
  Modelled from the spec: a raw match of section 3 (the elements of \<^verbatim>\<open>m_matches\<close> and
  \<^verbatim>\<open>m_knnMatches\<close>, of the OpenCV type \<^verbatim>\<open>cv::DMatch\<close>): query index, train index, distance
  and, if the k-nearest-neighbour mode is active, the second-best distance for the same
  query index.
\<close>

record correspondence =
  queryIndex :: nat
  trainIndex :: nat
  distance :: real
  secondDistance :: "real option"

text \<open>
  Modelled from the spec: the input of the match filter, which \<^verbatim>\<open>filterMatches\<close> reads from
  the members of the object: the raw matches, and whether the second-nearest-neighbour
  pass was run.
\<close>

record rawMatches =
  knnPass :: bool
  matches :: "correspondence list"

text \<open>
  Modelled from the spec: \<open>dmin\<close>, the minimum distance over the raw matches, computed
  inside the missing body of \<^verbatim>\<open>filterMatches\<close>. It is not used for an empty list.
\<close>

fun min_distance :: "correspondence list \<Rightarrow> real" where
  "min_distance [] = 0"
| "min_distance [c] = distance c"
| "min_distance (c # cs) = min (distance c) (min_distance cs)"

text \<open>
  Modelled from the spec: the mean of all distances, which the standard deviation of the
  missing body of \<^verbatim>\<open>filterMatches\<close> needs.
\<close>

definition mean :: "real list \<Rightarrow> real" where
  "mean xs = sum_list xs / real (length xs)"

text \<open>
  Modelled from the spec: \<open>stddev(all distances)\<close> of the missing body of
  \<^verbatim>\<open>filterMatches\<close>, taken as the standard deviation of the whole population.
\<close>

definition stddev :: "real list \<Rightarrow> real" where
  "stddev xs = sqrt (sum_list (map (\<lambda>x. (x - mean xs)\<^sup>2) xs) / real (length xs))"

text \<open>
  Modelled from the spec: the condition of \<open>constantFactorThreshold\<close> in the missing body
  of \<^verbatim>\<open>filterMatches\<close>: keep a match iff \<open>distance < dmin * factor\<close>.
\<close>

definition constant_factor_keeps :: "correspondence list \<Rightarrow> real \<Rightarrow> correspondence \<Rightarrow> bool" where
  "constant_factor_keeps cs factor c \<longleftrightarrow> distance c < min_distance cs * factor"

text \<open>
  Modelled from the spec: the condition of \<open>stdDistanceThreshold\<close> in the missing body of
  \<^verbatim>\<open>filterMatches\<close>: keep iff \<open>distance < dmin + stddev(all distances)\<close>.
\<close>

definition std_keeps :: "correspondence list \<Rightarrow> correspondence \<Rightarrow> bool" where
  "std_keeps cs c \<longleftrightarrow> distance c < min_distance cs + stddev (map distance cs)"

text \<open>
  Modelled from the spec: the condition of \<open>ratioDistanceThreshold\<close> in the missing body
  of \<^verbatim>\<open>filterMatches\<close>: keep iff \<open>distance_1 / distance_2 < ratio\<close>. A match without a
  second neighbour has no such quotient and is not kept; neither is one whose second
  distance is zero, where the quotient is not a number below any ratio.
\<close>

definition ratio_keeps :: "real \<Rightarrow> correspondence \<Rightarrow> bool" where
  "ratio_keeps ratio c \<longleftrightarrow>
     (case secondDistance c of
        None \<Rightarrow> False
      | Some d2 \<Rightarrow> d2 \<noteq> 0 \<and> distance c / d2 < ratio)"

text \<open>
  Modelled from the spec: \<^verbatim>\<open>vpKeyPoint::filterMatches\<close>, declared in \<^verbatim>\<open>vpKeyPoint.h\<close> without
  its body, as the contract \<open>filter(rawMatches, policy, factor, ratio)\<close> of section 4.2.
  The policies are the enumerators of \<^verbatim>\<open>vpFilterMatchingType\<close>. The constant-factor
  policy fails with \<open>InvalidParameterError\<close> unless \<open>factor > 0\<close>; the ratio policy fails
  with \<open>InvalidParameterError\<close> unless \<open>ratio\<close> lies in \<open>(0, 1]\<close> and with
  \<open>PreconditionError\<close> if the second-nearest-neighbour pass was not run; the combined
  policy, which uses the ratio condition, fails as the ratio policy does and keeps a
  match iff either condition holds.
\<close>

definition filterMatches ::
  "rawMatches \<Rightarrow> vpFilterMatchingType \<Rightarrow> real \<Rightarrow> real \<Rightarrow> error + correspondence list" where
  "filterMatches raw policy factor ratio =
     (case policy of
        constantFactorDistanceThreshold \<Rightarrow>
          if \<not> 0 < factor then Inl InvalidParameterError
          else Inr (filter (constant_factor_keeps (matches raw) factor) (matches raw))
      | stdDistanceThreshold \<Rightarrow>
          Inr (filter (std_keeps (matches raw)) (matches raw))
      | ratioDistanceThreshold \<Rightarrow>
          if \<not> (0 < ratio \<and> ratio \<le> 1) then Inl InvalidParameterError
          else if \<not> knnPass raw then Inl PreconditionError
          else Inr (filter (ratio_keeps ratio) (matches raw))
      | stdAndRatioDistanceThreshold \<Rightarrow>
          if \<not> (0 < ratio \<and> ratio \<le> 1) then Inl InvalidParameterError
          else if \<not> knnPass raw then Inl PreconditionError
          else Inr (filter (\<lambda>c. std_keeps (matches raw) c \<or> ratio_keeps ratio c) (matches raw))
      | noFilterMatching \<Rightarrow> Inr (matches raw))"

subsection \<open>Reference model store\<close>

text \<open>
  Modelled from the spec: a keypoint of section 3 (the OpenCV type \<^verbatim>\<open>cv::KeyPoint\<close> of
  \<^verbatim>\<open>m_trainKeyPoints\<close>): a 2-D image location and the orientation and scale metadata.
\<close>

record keypoint =
  location :: "real \<times> real"
  metadata :: "real list"

text \<open>
  Modelled from the spec: a descriptor of section 3 (a row of the \<^verbatim>\<open>cv::Mat\<close>
  \<^verbatim>\<open>m_trainDescriptors\<close>): a numeric vector.
\<close>

type_synonym descriptor = "real list"

text \<open>
  Modelled from the spec: an object point of section 3 (the OpenCV type \<^verbatim>\<open>cv::Point3f\<close> of
  \<^verbatim>\<open>m_trainPoints\<close>): a 3-D coordinate in the frame of the object.
\<close>

type_synonym objectPoint = "real \<times> real \<times> real"

text \<open>
  Modelled from the spec: the training image record of section 3: an identifier and the
  contiguous range of indices that the image contributed. The header keeps this
  information in \<^verbatim>\<open>m_mapOfImageId\<close>, which only the missing code writes.
\<close>

record trainingImageRecord =
  recordId :: int
  firstIndex :: nat
  count :: nat

text \<open>
  Modelled from the spec: the reference model store of sections 2 and 3: the training
  keypoints, descriptors, object points (absent where no 3-D information was supplied),
  the source-image identifier of every point, and the training image records. They
  stand for the members \<^verbatim>\<open>m_trainKeyPoints\<close>, \<^verbatim>\<open>m_trainDescriptors\<close>, \<^verbatim>\<open>m_trainPoints\<close> and
  \<^verbatim>\<open>m_mapOfImageId\<close>, which only the missing code writes.
\<close>

record referenceModel =
  trainKeyPoints :: "keypoint list"
  trainDescriptors :: "descriptor list"
  trainPoints :: "objectPoint option list"
  trainImageIds :: "int list"
  trainRecords :: "trainingImageRecord list"

text \<open>
  Modelled from the spec: the store as it is created, before any training batch; the
  constructor of \<^verbatim>\<open>vpKeyPoint\<close> is not among the sources.
\<close>

definition emptyModel :: referenceModel where
  "emptyModel =
     \<lparr>trainKeyPoints = [], trainDescriptors = [], trainPoints = [], trainImageIds = [],
      trainRecords = []\<rparr>"

text \<open>
  Modelled from the spec: the additive effect of \<open>append\<close> of section 4.1, part of the
  missing body of \<^verbatim>\<open>buildReference\<close>: the batch goes behind what the store holds, and
  a new training image record names its range.
\<close>

definition extendModel ::
  "keypoint list \<Rightarrow> descriptor list \<Rightarrow> objectPoint option list \<Rightarrow> int \<Rightarrow>
   referenceModel \<Rightarrow> referenceModel" where
  "extendModel kps descs pts imageId m =
     \<lparr>trainKeyPoints = trainKeyPoints m @ kps,
      trainDescriptors = trainDescriptors m @ descs,
      trainPoints = trainPoints m @ pts,
      trainImageIds = trainImageIds m @ replicate (length kps) imageId,
      trainRecords = trainRecords m @
        [\<lparr>recordId = imageId, firstIndex = length (trainKeyPoints m), count = length kps\<rparr>]\<rparr>"

text \<open>
  Modelled from the spec: \<^verbatim>\<open>vpKeyPoint::buildReference\<close> with \<^verbatim>\<open>trainKeyPoint\<close> and
  \<^verbatim>\<open>points3f\<close> in its appending use, declared in \<^verbatim>\<open>vpKeyPoint.h\<close> without its body, as the
  contract \<open>append(keypoints, descriptors, objectPoints?, imageId)\<close> of section 4.1: it
  fails with \<open>SizeMismatchError\<close> if the numbers of keypoints and descriptors differ,
  or if object points are supplied and their number differs.
\<close>

definition appendTraining ::
  "keypoint list \<Rightarrow> descriptor list \<Rightarrow> objectPoint list option \<Rightarrow> int \<Rightarrow>
   referenceModel \<Rightarrow> (error, referenceModel) outcome" where
  "appendTraining kps descs objectPoints imageId m =
     (if length kps \<noteq> length descs then Thrown SizeMismatchError m
      else case objectPoints of
          None \<Rightarrow> Returned (extendModel kps descs (replicate (length kps) None) imageId m)
        | Some pts \<Rightarrow>
            if length kps \<noteq> length pts then Thrown SizeMismatchError m
            else Returned (extendModel kps descs (map Some pts) imageId m))"

text \<open>
  Modelled from the spec: the lifecycle of the store of section 3, whose code is missing:
  it is created once and then populated by zero or more appends.
\<close>

inductive built :: "referenceModel \<Rightarrow> bool" where
  created: "built emptyModel"
| appended:
    "built m \<Longrightarrow> appendTraining kps descs objectPoints imageId m = Returned m' \<Longrightarrow> built m'"

text \<open>
  Modelled from the spec: the invariant of section 3 on the training collections, which
  the missing code has to maintain: as many descriptors and object points as keypoints.
\<close>

definition lengths_agree :: "referenceModel \<Rightarrow> bool" where
  "lengths_agree m \<longleftrightarrow>
     length (trainKeyPoints m) = length (trainDescriptors m) \<and>
     length (trainPoints m) = length (trainKeyPoints m)"

section \<open>Sample data\<close>

text \<open>An object state at which the theorems below are instantiated.\<close>

definition example_keypoint :: vpKeyPoint where
  "example_keypoint =
     \<lparr>m_computeCovariance = True,
      m_covarianceMatrix = [[DFin False 1 0]],
      m_detectionMethod = detectionScore,
      m_filterType = ratioDistanceThreshold,
      m_matcher = Some (\<lambda>name. if name = ''crossCheck'' then Some False else None),
      m_matcherName = ''BruteForce'',
      m_matchingFactorThreshold = DFin False 2 0,
      m_matchingRatioThreshold = DFin False 7 (- 3),
      m_nbRansacIterations = 200,
      m_nbRansacMinInlierCount = 100,
      m_ransacConsensusPercentage = DFin False 20 0,
      m_ransacReprojectionError = DFin False 6 0,
      m_ransacThreshold = DFin False 1 (- 7),
      m_useBruteForceCrossCheck = True,
      m_useConsensusPercentage = False,
      m_useKnn = True,
      m_useRansacVVS = False\<rparr>"

text \<open>
  Four raw matches with two neighbours each: distances \<open>2, 2, 4, 4\<close> (minimum \<open>2\<close>,
  standard deviation \<open>1\<close>) and quotients \<open>1/4, 4/5, 1/4, 4/5\<close>.
\<close>

definition example_matches :: rawMatches where
  "example_matches =
     \<lparr>knnPass = True, matches =
       [\<lparr>queryIndex = 0, trainIndex = 5, distance = 2, secondDistance = Some 8\<rparr>,
        \<lparr>queryIndex = 1, trainIndex = 3, distance = 2, secondDistance = Some (5 / 2)\<rparr>,
        \<lparr>queryIndex = 2, trainIndex = 3, distance = 4, secondDistance = Some 16\<rparr>,
        \<lparr>queryIndex = 3, trainIndex = 9, distance = 4, secondDistance = Some 5\<rparr>]\<rparr>"

section \<open>Properties of the model of \<open>double\<close>\<close>

text \<open>
  Rounding never lowers the quotient, and a magnitude of at least \<open>2 ^ k\<close> does not round
  to zero.
\<close>

lemma rne_ge: "M div 2 ^ k \<le> rne M k"
  by (simp add: rne_def Let_def)

lemma rne_pos: 
  assumes "2 ^ k \<le> M" 
  shows "1 \<le> rne M k"
proof -
  from assms have "1 \<le> M div 2 ^ k"
    by (simp add: Suc_le_eq div_greater_zero_iff)
  then show ?thesis using rne_ge [of M k] by linarith
qed

lemma rne_le: "rne M k \<le> M div 2 ^ k + 1"
  by (simp add: rne_def Let_def)

lemma rne_exact: "rne M 0 = M"
  by (simp add: rne_def)

lemma shift_le: 
  assumes "0 < M" 
  shows "2 ^ (floorlog 2 M - 53) \<le> M"
proof -
  have "(2::nat) ^ (floorlog 2 M - 53) \<le> 2 ^ (floorlog 2 M - 1)"
    by (rule power_increasing) auto
  also have "\<dots> \<le> M" using floorlog_bounds [of M 2] assms by simp
  finally show ?thesis .
qed

lemma significand_bound:
  "M div 2 ^ (floorlog 2 M - 53) < 2 ^ 53"
proof (cases "M = 0")
  case True
  then show ?thesis by simp
next
  case False
  then have "M < 2 ^ floorlog 2 M"
    using floorlog_bounds [of M 2] by simp
  also have "(2::nat) ^ floorlog 2 M \<le> 2 ^ (53 + (floorlog 2 M - 53))"
    by (rule power_increasing) auto
  finally have "M < 2 ^ 53 * 2 ^ (floorlog 2 M - 53)"
    by (simp add: power_add)
  then show ?thesis
    by (simp add: less_mult_imp_div_less)
qed

text \<open>
  Rounding yields a double, leaves alone what already fits into 53 bits, and maps a
  positive magnitude to an infinity or to a positive number of an exponent that is not
  smaller.
\<close>

lemma dround_is_double:
  assumes "- 1074 \<le> E"
  shows "is_double (dround s M E)"
proof -
  have "rne M (floorlog 2 M - 53) \<le> 2 ^ 53"
    using rne_le [of M "floorlog 2 M - 53"] significand_bound [of M] by linarith
  then show ?thesis
    using assms by (auto simp: dround_def Let_def)
qed

lemma dround_exact:
  assumes "M < 2 ^ 53" and "E \<le> 971"
  shows "dround s M E = DFin s M E"
proof -
  have "floorlog 2 M \<le> 53"
    using assms(1) by (simp add: floorlog_le_iff)
  then have "floorlog 2 M - 53 = 0" by simp
  then show ?thesis
    using assms by (simp add: dround_def rne_exact)
qed

lemma dround_cases:
  assumes "0 < M"
  shows "dround s M E = DInf s \<or> (\<exists>q T. dround s M E = DFin s q T \<and> 1 \<le> q \<and> E \<le> T)"
proof -
  have "1 \<le> rne M (floorlog 2 M - 53)"
    using rne_pos [OF shift_le [OF assms]] .
  then show ?thesis
    by (auto simp: dround_def Let_def)
qed

lemma dsub_is_double:
  assumes "is_double a" and "is_double b"
  shows "is_double (dsub a b)"
proof (cases a)
  case (DFin s m e)
  note a = this
  show ?thesis
  proof (cases b)
    case (DFin t n f)
    then show ?thesis
      using assms a by (auto simp: Let_def intro!: dround_is_double)
  qed (simp_all add: a)
next
  case (DInf s)
  then show ?thesis by (cases b) simp_all
qed simp

text \<open>The integers that \<open>dsub\<close> subtracts stand for the values of its operands.\<close>

lemma pow_nat_powi: "0 \<le> k \<Longrightarrow> (2::real) ^ nat k = 2 powi k"
  by (simp add: power_int_def)

lemma scale_exact:
  assumes "E \<le> e"
  shows "real_of_int (signed_int s m * 2 ^ nat (e - E)) * 2 powi E = dval s m e"
proof -
  have "(2::real) ^ nat (e - E) * 2 powi E = 2 powi e"
    using assms by (simp add: pow_nat_powi flip: power_int_add)
  then have "real_of_int (signed_int s m) * ((2::real) ^ nat (e - E) * 2 powi E) = dval s m e"
    by (simp add: dval_def signed_int_def)
  then show ?thesis by (simp add: mult.assoc)
qed

lemma dval_ge_one_sign:
  assumes "1 \<le> dval s m e"
  shows "\<not> s"
proof
  assume s
  then have "dval s m e \<le> 0"
    by (simp add: dval_def)
  with assms show False by simp
qed

lemma exponent_bound:
  assumes "1 \<le> dval False m e" "m < 2 ^ 53"
  shows "- 52 \<le> e"
proof (rule ccontr)
  assume "\<not> - 52 \<le> e"
  then have e: "e \<le> - 53" by simp
  have "(2::real) powi e \<le> 2 powi (- 53)"
    using e by (intro power_int_increasing) auto
  moreover have "real m < 2 ^ 53" using assms(2)
    by (metis of_nat_less_iff of_nat_numeral of_nat_power)
  moreover have "0 < (2::real) powi e" by simp
  ultimately have "real m * 2 powi e < 2 ^ 53 * 2 powi (- 53)"
    by (intro mult_less_le_imp_less) auto
  also have "\<dots> = (1::real)" by (simp add: power_int_minus)
  finally show False using assms(1) by (simp add: dval_def)
qed

text \<open>A difference that fits into 53 bits is computed exactly.\<close>

lemma dval_signed: "dval (d < 0) (nat \<bar>d\<bar>) E = real_of_int d * 2 powi E"
  by (simp add: dval_def)

lemma dsub_exact:
  assumes "e \<le> 971" and "f \<le> 971"
    and "\<bar>signed_int s m * 2 ^ nat (e - min e f) - signed_int t n * 2 ^ nat (f - min e f)\<bar> < 2 ^ 53"
  shows "\<exists>u q T. dsub (DFin s m e) (DFin t n f) = DFin u q T \<and>
           dval u q T = dval s m e - dval t n f"
proof -
  define E where "E = min e f"
  define d where "d = signed_int s m * 2 ^ nat (e - E) - signed_int t n * 2 ^ nat (f - E)"
  have E_le: "E \<le> e" "E \<le> f" by (simp_all add: E_def)
  have diff: "real_of_int d * 2 powi E = dval s m e - dval t n f"
    unfolding d_def using scale_exact [OF E_le(1), of s m] scale_exact [OF E_le(2), of t n]
    by (simp add: algebra_simps)
  have small: "nat \<bar>d\<bar> < 2 ^ 53"
    using assms(3) by (simp add: d_def E_def nat_less_iff)
  have "E \<le> 971" using assms(1) E_le(1) by simp
  then have r: "dround (d < 0) (nat \<bar>d\<bar>) E = DFin (d < 0) (nat \<bar>d\<bar>) E"
    using small by (simp add: dround_exact)
  have "dsub (DFin s m e) (DFin t n f) =
      (if d = 0 then DFin (m = 0 \<and> n = 0 \<and> s \<and> \<not> t) 0 E
       else dround (d < 0) (nat \<bar>d\<bar>) E)"
    unfolding dsub.simps Let_def d_def E_def by simp
  then have sub: "dsub (DFin s m e) (DFin t n f) =
      (if d = 0 then DFin (m = 0 \<and> n = 0 \<and> s \<and> \<not> t) 0 E else DFin (d < 0) (nat \<bar>d\<bar>) E)"
    by (simp only: r)
  show ?thesis
  proof (cases "d = 0")
    case True
    then show ?thesis using diff by (simp add: sub dval_def del: dsub.simps)
  next
    case False
    then show ?thesis using diff by (simp add: sub dval_signed del: dsub.simps)
  qed
qed

text \<open>
  The second disjunct of the guard of \<^verbatim>\<open>setMatchingRatioThreshold\<close> is evaluated for
  arguments that are not below \<open>1\<close>. Among the finite ones it holds for the value \<open>1\<close>
  only: the double that follows \<open>1\<close> is \<open>1 + 2 ^ - 52\<close>, and its distance from \<open>1\<close> is not
  below \<open>2 ^ - 52\<close>.
\<close>

lemma dsub_one_lt_eps:
  assumes dbl: "is_double (DFin s m e)" and ge: "1 \<le> dval s m e"
  shows "dless (dabs (dsub (DFin s m e) d_one)) d_epsilon \<longleftrightarrow> dval s m e = 1"
proof -
  have s: "\<not> s" using ge by (rule dval_ge_one_sign)
  define E where "E = min e 0"
  define d where "d = signed_int s m * 2 ^ nat (e - E) - signed_int False 1 * 2 ^ nat (0 - E)"
  have E_le: "E \<le> e" "E \<le> 0" by (simp_all add: E_def)
  have "real_of_int d * 2 powi E = dval s m e - dval False 1 0"
    unfolding d_def using scale_exact [OF E_le(1), of s m] scale_exact [OF E_le(2), of False 1]
    by (simp add: algebra_simps)
  then have diff: "real_of_int d * 2 powi E = dval s m e - 1"
    by (simp add: dval_def)
  have Epos: "0 < (2::real) powi E" by simp
  have d_nonneg: "0 \<le> d"
  proof (rule ccontr)
    assume "\<not> 0 \<le> d"
    then have "real_of_int d < 0" by simp
    then have "real_of_int d * 2 powi E < 0" using Epos by (simp add: mult_less_0_iff)
    with diff ge show False by simp
  qed
  have d_zero: "d = 0 \<longleftrightarrow> dval s m e = 1"
    using diff Epos by auto
  have E_ge: "- 52 \<le> E"
    using exponent_bound [of m e] ge s dbl by (auto simp: E_def)
  have sub: "dsub (DFin s m e) d_one =
      (if d = 0 then DFin (m = 0 \<and> (1::nat) = 0 \<and> s \<and> \<not> False) 0 E else dround (d < 0) (nat \<bar>d\<bar>) E)"
    by (simp add: d_one_def Let_def d_def E_def)
  show ?thesis
  proof (cases "d = 0")
    case True
    then show ?thesis
      using d_zero by (simp add: sub d_epsilon_def dval_def)
  next
    case False
    then have pos: "0 < nat \<bar>d\<bar>" using d_nonneg by simp
    have neg: "\<not> d < 0" using d_nonneg by simp
    have low: "(2::real) powi (- 52) \<le> 2 powi T" if "E \<le> T" for T
      using that E_ge by (intro power_int_increasing) auto
    have "\<not> dless (dabs (dround False (nat \<bar>d\<bar>) E)) d_epsilon"
      using dround_cases [OF pos, of False E]
    proof (elim disjE exE conjE)
      assume "dround False (nat \<bar>d\<bar>) E = DInf False"
      then show ?thesis by (simp add: d_epsilon_def)
    next
      fix q T
      assume r: "dround False (nat \<bar>d\<bar>) E = DFin False q T" and q: "1 \<le> q" and T: "E \<le> T"
      have "(2::real) powi (- 52) \<le> 1 * 2 powi T" using low [OF T] by simp
      also have "\<dots> \<le> real q * 2 powi T"
        using q by (intro mult_right_mono) auto
      finally show ?thesis
        by (simp add: r d_epsilon_def dval_def)
    qed
    then show ?thesis
      using False d_zero neg by (simp add: sub)
  qed
qed

lemma ratio_guard:
  assumes "is_double ratio"
  shows "(dless d_zero ratio \<and> (dless ratio d_one \<or> dless (dabs (dsub ratio d_one)) d_epsilon))
           = in_unit_interval ratio"
proof (cases ratio)
  case DNaN
  then show ?thesis by (simp add: d_zero_def)
next
  case (DInf s)
  then show ?thesis by (cases s) (simp_all add: d_zero_def d_one_def d_epsilon_def)
next
  case (DFin s m e)
  have one: "dless (DFin s m e) d_one = (dval s m e < 1)"
    by (simp add: d_one_def dval_def)
  have zero: "dless d_zero (DFin s m e) = (0 < dval s m e)"
    by (simp add: d_zero_def dval_def)
  show ?thesis
  proof (cases "1 \<le> dval s m e")
    case True
    then show ?thesis
      using dsub_one_lt_eps [of s m e] assms DFin by (auto simp: one zero)
  next
    case False
    then show ?thesis by (auto simp: DFin one zero)
  qed
qed

lemma dless_zero_iff: "dless d_zero x = d_positive x"
  by (cases x) (simp_all add: d_zero_def dval_def)

lemma not_positive_if_nonpositive: "d_nonpositive x \<Longrightarrow> \<not> d_positive x"
  by (cases x) auto

section \<open>The configuration setters\<close>

text \<open>
  C6. For every double \<open>ratio\<close>, \<^verbatim>\<open>setMatchingRatioThreshold\<close> stores \<open>ratio\<close> as the new
  matching ratio if and only if \<open>ratio\<close> lies in \<open>]0 ; 1]\<close>; for every other argument
  (a NaN and the infinities included) the call throws and leaves the object, and so the
  stored ratio, unchanged. The tolerance of one machine epsilon around \<open>1\<close> admits no
  double above \<open>1\<close>.
\<close>

theorem setMatchingRatioThreshold_interval:
  assumes "is_double ratio"
  shows "setMatchingRatioThreshold ratio k =
           (if in_unit_interval ratio
            then Returned (k\<lparr>m_matchingRatioThreshold := ratio\<rparr>)
            else Thrown (vpException badValue ''The ratio must be in the interval ]0 ; 1].'') k)"
  unfolding setMatchingRatioThreshold_def ratio_guard [OF assms] by simp

theorem setMatchingRatioThreshold_interval_witness:
  "is_double (DFin False 3 (- 2)) \<and>
   setMatchingRatioThreshold (DFin False 3 (- 2)) example_keypoint =
     Returned (example_keypoint\<lparr>m_matchingRatioThreshold := DFin False 3 (- 2)\<rparr>) \<and>
   is_double (DFin False 1 0) \<and>
   setMatchingRatioThreshold (DFin False 1 0) example_keypoint =
     Returned (example_keypoint\<lparr>m_matchingRatioThreshold := DFin False 1 0\<rparr>) \<and>
   is_double (DFin False (2 ^ 52 + 1) (- 52)) \<and>
   setMatchingRatioThreshold (DFin False (2 ^ 52 + 1) (- 52)) example_keypoint =
     Thrown (vpException badValue ''The ratio must be in the interval ]0 ; 1].'') example_keypoint \<and>
   is_double DNaN \<and>
   setMatchingRatioThreshold DNaN example_keypoint =
     Thrown (vpException badValue ''The ratio must be in the interval ]0 ; 1].'') example_keypoint"
  using setMatchingRatioThreshold_interval [of "DFin False 3 (- 2)" example_keypoint]
    setMatchingRatioThreshold_interval [of "DFin False 1 0" example_keypoint]
    setMatchingRatioThreshold_interval [of "DFin False (2 ^ 52 + 1) (- 52)" example_keypoint]
    setMatchingRatioThreshold_interval [of DNaN example_keypoint]
  by (simp add: dval_def)

text \<open>
  C7. Each of \<^verbatim>\<open>setMatchingFactorThreshold\<close>, \<^verbatim>\<open>setRansacIteration\<close>,
  \<^verbatim>\<open>setRansacReprojectionError\<close>, \<^verbatim>\<open>setRansacMinInlierCount\<close> and \<^verbatim>\<open>setRansacThreshold\<close>
  throws for every non-positive argument and leaves the object, and so the stored
  parameter, unchanged; for every strictly positive argument it returns, and the
  argument is the stored parameter.
\<close>

theorem positive_parameter_setters:
  "(d_nonpositive x \<longrightarrow>
      setMatchingFactorThreshold x k =
        Thrown (vpException badValue ''The factor must be positive.'') k \<and>
      setRansacReprojectionError x k =
        Thrown (vpException badValue
          ''The Ransac reprojection threshold must be positive as we deal with distance.'') k \<and>
      setRansacThreshold x k =
        Thrown (vpException badValue
          ''The Ransac threshold must be positive as we deal with distance.'') k) \<and>
   (d_positive x \<longrightarrow>
      setMatchingFactorThreshold x k = Returned (k\<lparr>m_matchingFactorThreshold := x\<rparr>) \<and>
      setRansacReprojectionError x k = Returned (k\<lparr>m_ransacReprojectionError := x\<rparr>) \<and>
      setRansacThreshold x k = Returned (k\<lparr>m_ransacThreshold := x\<rparr>)) \<and>
   (sint n \<le> 0 \<longrightarrow>
      setRansacIteration n k =
        Thrown (vpException badValue ''The number of iterations must be greater than zero.'') k \<and>
      setRansacMinInlierCount n k =
        Thrown (vpException badValue
          ''The minimum number of inliers must be greater than zero.'') k) \<and>
   (0 < sint n \<longrightarrow>
      setRansacIteration n k = Returned (k\<lparr>m_nbRansacIterations := n\<rparr>) \<and>
      setRansacMinInlierCount n k = Returned (k\<lparr>m_nbRansacMinInlierCount := n\<rparr>))"
proof (intro conjI impI)
  assume "d_nonpositive x"
  then have no: "\<not> dless d_zero x"
    by (simp add: dless_zero_iff not_positive_if_nonpositive)
  show "setMatchingFactorThreshold x k =
      Thrown (vpException badValue ''The factor must be positive.'') k"
    using no by (simp add: setMatchingFactorThreshold_def)
  show "setRansacReprojectionError x k =
      Thrown (vpException badValue
        ''The Ransac reprojection threshold must be positive as we deal with distance.'') k"
    using no by (simp add: setRansacReprojectionError_def)
  show "setRansacThreshold x k =
      Thrown (vpException badValue
        ''The Ransac threshold must be positive as we deal with distance.'') k"
    using no by (simp add: setRansacThreshold_def)
next
  assume "d_positive x"
  then have yes: "dless d_zero x" by (simp add: dless_zero_iff)
  show "setMatchingFactorThreshold x k = Returned (k\<lparr>m_matchingFactorThreshold := x\<rparr>)"
    using yes by (simp add: setMatchingFactorThreshold_def)
  show "setRansacReprojectionError x k = Returned (k\<lparr>m_ransacReprojectionError := x\<rparr>)"
    using yes by (simp add: setRansacReprojectionError_def)
  show "setRansacThreshold x k = Returned (k\<lparr>m_ransacThreshold := x\<rparr>)"
    using yes by (simp add: setRansacThreshold_def)
next
  assume "sint n \<le> 0"
  then show "setRansacIteration n k =
      Thrown (vpException badValue ''The number of iterations must be greater than zero.'') k"
    and "setRansacMinInlierCount n k =
      Thrown (vpException badValue ''The minimum number of inliers must be greater than zero.'') k"
    by (simp_all add: setRansacIteration_def setRansacMinInlierCount_def)
next
  assume "0 < sint n"
  then show "setRansacIteration n k = Returned (k\<lparr>m_nbRansacIterations := n\<rparr>)"
    and "setRansacMinInlierCount n k = Returned (k\<lparr>m_nbRansacMinInlierCount := n\<rparr>)"
    by (simp_all add: setRansacIteration_def setRansacMinInlierCount_def)
qed

theorem positive_parameter_setters_witness:
  "d_positive (DFin False 3 (- 1)) \<and> 0 < sint (25 :: cpp_int) \<and>
   setMatchingFactorThreshold (DFin False 3 (- 1)) example_keypoint =
     Returned (example_keypoint\<lparr>m_matchingFactorThreshold := DFin False 3 (- 1)\<rparr>) \<and>
   setRansacReprojectionError (DFin False 3 (- 1)) example_keypoint =
     Returned (example_keypoint\<lparr>m_ransacReprojectionError := DFin False 3 (- 1)\<rparr>) \<and>
   setRansacThreshold (DFin False 3 (- 1)) example_keypoint =
     Returned (example_keypoint\<lparr>m_ransacThreshold := DFin False 3 (- 1)\<rparr>) \<and>
   setRansacIteration 25 example_keypoint =
     Returned (example_keypoint\<lparr>m_nbRansacIterations := 25\<rparr>) \<and>
   setRansacMinInlierCount 25 example_keypoint =
     Returned (example_keypoint\<lparr>m_nbRansacMinInlierCount := 25\<rparr>) \<and>
   d_nonpositive (DFin True 0 0) \<and> sint (- 4 :: cpp_int) \<le> 0 \<and>
   setMatchingFactorThreshold (DFin True 0 0) example_keypoint =
     Thrown (vpException badValue ''The factor must be positive.'') example_keypoint \<and>
   setRansacReprojectionError (DFin True 0 0) example_keypoint =
     Thrown (vpException badValue
       ''The Ransac reprojection threshold must be positive as we deal with distance.'')
       example_keypoint \<and>
   setRansacThreshold (DFin True 0 0) example_keypoint =
     Thrown (vpException badValue
       ''The Ransac threshold must be positive as we deal with distance.'') example_keypoint \<and>
   setRansacIteration (- 4) example_keypoint =
     Thrown (vpException badValue ''The number of iterations must be greater than zero.'')
       example_keypoint \<and>
   setRansacMinInlierCount (- 4) example_keypoint =
     Thrown (vpException badValue ''The minimum number of inliers must be greater than zero.'')
       example_keypoint"
proof -
  have pos: "d_positive (DFin False 3 (- 1))" by (simp add: dval_def)
  have npos: "d_nonpositive (DFin True 0 0)" by (simp add: dval_def)
  have ipos: "0 < sint (25 :: cpp_int)" by simp
  have ineg: "sint (- 4 :: cpp_int) \<le> 0" by simp
  show ?thesis
    using positive_parameter_setters [of "DFin False 3 (- 1)" example_keypoint 25]
      positive_parameter_setters [of "DFin True 0 0" example_keypoint "- 4"]
      pos npos ipos ineg
    by simp
qed

text \<open>
  C8. \<^verbatim>\<open>getCovarianceMatrix\<close> always returns a matrix: the empty matrix, with a warning on
  the console, if the covariance computation is not enabled or the Virtual Visual
  Servoing estimator is not selected, and the stored covariance matrix, without a
  warning, if both are.
\<close>

theorem getCovarianceMatrix_total:
  "(\<not> m_computeCovariance k \<or> \<not> m_useRansacVVS k \<longrightarrow>
      fst (getCovarianceMatrix k) = vpMatrix_empty \<and> snd (getCovarianceMatrix k) \<noteq> []) \<and>
   (m_computeCovariance k \<and> m_useRansacVVS k \<longrightarrow>
      getCovarianceMatrix k = (m_covarianceMatrix k, []))"
  by (simp add: getCovarianceMatrix_def)

theorem getCovarianceMatrix_total_witness:
  "(\<not> m_useRansacVVS example_keypoint) \<and>
   fst (getCovarianceMatrix example_keypoint) = vpMatrix_empty \<and>
   snd (getCovarianceMatrix example_keypoint) \<noteq> [] \<and>
   m_computeCovariance (setUseRansacVVS True example_keypoint) \<and>
   m_useRansacVVS (setUseRansacVVS True example_keypoint) \<and>
   getCovarianceMatrix (setUseRansacVVS True example_keypoint) = ([[DFin False 1 0]], [])"
  using getCovarianceMatrix_total [of example_keypoint]
    getCovarianceMatrix_total [of "setUseRansacVVS True example_keypoint"]
  by (simp add: example_keypoint_def setUseRansacVVS_def)

text \<open>
  No setter of the header brings the object into the state in which a ratio-based policy
  is selected without the two-nearest-neighbour pass.
\<close>

lemma call_setter_keeps:
  "\<not> ratio_filter_without_knn k \<Longrightarrow> \<not> ratio_filter_without_knn (call_setter alg_set c k)"
proof (cases c)
  case (SetFilterMatchingType t)
  then show ?thesis
    by (simp add: setFilterMatchingType_def ratio_filter_without_knn_def Let_def)
next
  case (SetUseBruteForceCrossCheck b)
  assume "\<not> ratio_filter_without_knn k"
  then show ?thesis
    by (auto simp: SetUseBruteForceCrossCheck setUseBruteForceCrossCheck_def
        ratio_filter_without_knn_def split: option.splits sum.splits)
qed (simp_all add: ratio_filter_without_knn_def setCovarianceComputation_def
    setDetectionMethod_def setMatchingFactorThreshold_def setMatchingRatioThreshold_def
    setRansacConsensusPercentage_def setRansacIteration_def setRansacReprojectionError_def
    setRansacMinInlierCount_def setRansacThreshold_def setUseRansacConsensusPercentage_def
    setUseRansacVVS_def)

lemma calls_keep:
  "\<not> ratio_filter_without_knn k \<Longrightarrow>
   \<not> ratio_filter_without_knn (fold (call_setter alg_set) calls k)"
proof (induction calls arbitrary: k)
  case Nil
  then show ?case by simp
next
  case (Cons c calls)
  from Cons.prems have "\<not> ratio_filter_without_knn (call_setter alg_set c k)"
    by (rule call_setter_keeps)
  then show ?case using Cons.IH by simp
qed

text \<open>
  C9. \<^verbatim>\<open>setFilterMatchingType t\<close> stores \<open>t\<close> and sets \<^verbatim>\<open>m_useKnn\<close> to true if and only if
  \<open>t\<close> is \<^verbatim>\<open>ratioDistanceThreshold\<close> or \<^verbatim>\<open>stdAndRatioDistanceThreshold\<close>, and changes nothing
  else; so after the call, and after any further calls of the setters of the header, a
  ratio-based policy is never selected without the two-nearest-neighbour pass.
\<close>

theorem setFilterMatchingType_knn:
  "setFilterMatchingType t k =
     k\<lparr>m_filterType := t,
       m_useKnn := (t = ratioDistanceThreshold \<or> t = stdAndRatioDistanceThreshold)\<rparr> \<and>
   (m_useKnn (setFilterMatchingType t k) \<longleftrightarrow>
      t = ratioDistanceThreshold \<or> t = stdAndRatioDistanceThreshold) \<and>
   \<not> ratio_filter_without_knn (setFilterMatchingType t k) \<and>
   \<not> ratio_filter_without_knn (fold (call_setter alg_set) calls (setFilterMatchingType t k))"
proof -
  have now: "\<not> ratio_filter_without_knn (setFilterMatchingType t k)"
    by (simp add: setFilterMatchingType_def ratio_filter_without_knn_def Let_def)
  then have "\<not> ratio_filter_without_knn (fold (call_setter alg_set) calls (setFilterMatchingType t k))"
    by (rule calls_keep)
  with now show ?thesis
    by (simp add: setFilterMatchingType_def Let_def)
qed

theorem setFilterMatchingType_knn_witness:
  "m_useKnn (setFilterMatchingType stdAndRatioDistanceThreshold
      (setFilterMatchingType noFilterMatching example_keypoint)) \<and>
   \<not> m_useKnn (setFilterMatchingType noFilterMatching example_keypoint) \<and>
   \<not> ratio_filter_without_knn
     (fold (call_setter (\<lambda>m name v. Inr (m(name \<mapsto> v))))
        [SetUseBruteForceCrossCheck True, SetMatchingRatioThreshold (DFin False 3 0),
         SetFilterMatchingType ratioDistanceThreshold, SetRansacIteration 0]
        (setFilterMatchingType noFilterMatching example_keypoint))"
proof -
  note a = setFilterMatchingType_knn [of stdAndRatioDistanceThreshold
      "setFilterMatchingType noFilterMatching example_keypoint"]
  note b = setFilterMatchingType_knn [of noFilterMatching example_keypoint
      "\<lambda>m name v. Inr (m(name \<mapsto> v))"
      "[SetUseBruteForceCrossCheck True, SetMatchingRatioThreshold (DFin False 3 0),
        SetFilterMatchingType ratioDistanceThreshold, SetRansacIteration 0]"]
  have "m_useKnn (setFilterMatchingType stdAndRatioDistanceThreshold
      (setFilterMatchingType noFilterMatching example_keypoint))"
    using a [THEN conjunct2, THEN conjunct1] by simp
  moreover have "\<not> m_useKnn (setFilterMatchingType noFilterMatching example_keypoint)"
    using b [THEN conjunct2, THEN conjunct1] by simp
  ultimately show ?thesis
    using b [THEN conjunct2, THEN conjunct2, THEN conjunct2] by blast
qed

text \<open>
  C10. For every argument, \<^verbatim>\<open>setUseBruteForceCrossCheck\<close> returns with the object
  unchanged, and without calling into the matcher, unless the matcher is initialised,
  \<^verbatim>\<open>m_useKnn\<close> is false and the matcher name is exactly \<^verbatim>\<open>BruteForce\<close>; in particular it has
  no effect right after a ratio-based policy was selected with \<^verbatim>\<open>setFilterMatchingType\<close>.
\<close>

theorem setUseBruteForceCrossCheck_noop:
  "(\<not> (m_matcher k \<noteq> None \<and> \<not> m_useKnn k \<and> m_matcherName k = ''BruteForce'') \<longrightarrow>
      setUseBruteForceCrossCheck alg_set b k = Returned k) \<and>
   (t = ratioDistanceThreshold \<or> t = stdAndRatioDistanceThreshold \<longrightarrow>
      setUseBruteForceCrossCheck alg_set b (setFilterMatchingType t k) =
        Returned (setFilterMatchingType t k))"
  by (auto simp: setUseBruteForceCrossCheck_def setFilterMatchingType_def split: option.splits)

theorem setUseBruteForceCrossCheck_noop_witness:
  "m_matcher example_keypoint \<noteq> None \<and> m_matcherName example_keypoint = ''BruteForce'' \<and>
   m_useKnn example_keypoint \<and>
   setUseBruteForceCrossCheck (\<lambda>m name v. Inl (cv_Exception ''no such parameter'')) True
     example_keypoint = Returned example_keypoint \<and>
   setUseBruteForceCrossCheck (\<lambda>m name v. Inr (m(name \<mapsto> v))) True
     (setFilterMatchingType ratioDistanceThreshold example_keypoint) =
     Returned (setFilterMatchingType ratioDistanceThreshold example_keypoint)"
  using setUseBruteForceCrossCheck_noop [of example_keypoint
      "\<lambda>m name v. Inl (cv_Exception ''no such parameter'')" True ratioDistanceThreshold]
    setUseBruteForceCrossCheck_noop [of example_keypoint
      "\<lambda>m name v. Inr (m(name \<mapsto> v))" True ratioDistanceThreshold]
  by (simp add: example_keypoint_def)

section \<open>The reference model store\<close>

lemma appendTraining_Returned:
  assumes "appendTraining kps descs objectPoints imageId m = Returned m'"
  shows "\<exists>pts. m' = extendModel kps descs pts imageId m \<and>
           length kps = length descs \<and> length pts = length kps"
  using assms
  by (auto simp: appendTraining_def split: if_splits option.splits)

lemma appendTraining_keeps_lengths:
  assumes "lengths_agree m" and "appendTraining kps descs objectPoints imageId m = Returned m'"
  shows "lengths_agree m'"
proof -
  from appendTraining_Returned [OF assms(2)]
  obtain pts where "m' = extendModel kps descs pts imageId m"
    and "length kps = length descs" and "length pts = length kps"
    by blast
  with assms(1) show ?thesis
    by (simp add: lengths_agree_def extendModel_def)
qed

lemma built_lengths_agree: "built m \<Longrightarrow> lengths_agree m"
proof (induction rule: built.induct)
  case created
  show ?case by (simp add: lengths_agree_def emptyModel_def)
next
  case (appended m kps descs objectPoints imageId m')
  then show ?case by (blast intro: appendTraining_keeps_lengths)
qed

text \<open>
  C2. Appending a training batch whose numbers of keypoints, of descriptors and (when
  3-D points are supplied) of object points are not all equal fails with
  \<open>SizeMismatchError\<close> and leaves the store unchanged; after every successful append to
  a store that was created and populated by appends, the training keypoints,
  descriptors and object points have equal lengths.
\<close>

theorem appendTraining_size_check:
  "(length kps \<noteq> length descs \<or> (\<exists>pts. objectPoints = Some pts \<and> length pts \<noteq> length kps) \<longrightarrow>
      appendTraining kps descs objectPoints imageId m = Thrown SizeMismatchError m) \<and>
   (built m \<and> appendTraining kps descs objectPoints imageId m = Returned m' \<longrightarrow>
      length (trainKeyPoints m') = length (trainDescriptors m') \<and>
      length (trainPoints m') = length (trainKeyPoints m'))"
proof (intro conjI impI)
  assume "length kps \<noteq> length descs \<or> (\<exists>pts. objectPoints = Some pts \<and> length pts \<noteq> length kps)"
  then show "appendTraining kps descs objectPoints imageId m = Thrown SizeMismatchError m"
    by (auto simp: appendTraining_def)
next
  assume a: "built m \<and> appendTraining kps descs objectPoints imageId m = Returned m'"
  then have "lengths_agree m" by (simp add: built_lengths_agree)
  with a have "lengths_agree m'" by (blast intro: appendTraining_keeps_lengths)
  then show "length (trainKeyPoints m') = length (trainDescriptors m')"
    and "length (trainPoints m') = length (trainKeyPoints m')"
    by (simp_all add: lengths_agree_def)
qed

theorem appendTraining_size_check_witness:
  "appendTraining [\<lparr>location = (10, 20), metadata = []\<rparr>] [[1, 0], [0, 1]] (Some [(0, 0, 1)]) 7
      emptyModel = Thrown SizeMismatchError emptyModel \<and>
   appendTraining [\<lparr>location = (10, 20), metadata = []\<rparr>] [[1, 0]] (Some []) 7
      emptyModel = Thrown SizeMismatchError emptyModel \<and>
   built emptyModel \<and>
   appendTraining [\<lparr>location = (10, 20), metadata = []\<rparr>] [[1, 0]] (Some [(0, 0, 1)]) 7
      emptyModel =
     Returned (extendModel [\<lparr>location = (10, 20), metadata = []\<rparr>] [[1, 0]] [Some (0, 0, 1)] 7
       emptyModel) \<and>
   length (trainKeyPoints (extendModel [\<lparr>location = (10, 20), metadata = []\<rparr>] [[1, 0]]
       [Some (0, 0, 1)] 7 emptyModel)) = 1 \<and>
   length (trainDescriptors (extendModel [\<lparr>location = (10, 20), metadata = []\<rparr>] [[1, 0]]
       [Some (0, 0, 1)] 7 emptyModel)) = 1 \<and>
   length (trainPoints (extendModel [\<lparr>location = (10, 20), metadata = []\<rparr>] [[1, 0]]
       [Some (0, 0, 1)] 7 emptyModel)) = 1"
proof -
  have ok: "appendTraining [\<lparr>location = (10, 20), metadata = []\<rparr>] [[1, 0]] (Some [(0, 0, 1)]) 7
      emptyModel =
     Returned (extendModel [\<lparr>location = (10, 20), metadata = []\<rparr>] [[1, 0]] [Some (0, 0, 1)] 7
       emptyModel)"
    by (simp add: appendTraining_def)
  show ?thesis
    using appendTraining_size_check [of "[\<lparr>location = (10, 20), metadata = []\<rparr>]"
        "[[1, 0], [0, 1]]" "Some [(0, 0, 1)]" 7 emptyModel]
      appendTraining_size_check [of "[\<lparr>location = (10, 20), metadata = []\<rparr>]"
        "[[1, 0]]" "Some []" 7 emptyModel]
      appendTraining_size_check [of "[\<lparr>location = (10, 20), metadata = []\<rparr>]"
        "[[1, 0]]" "Some [(0, 0, 1)]" 7 emptyModel
        "extendModel [\<lparr>location = (10, 20), metadata = []\<rparr>] [[1, 0]] [Some (0, 0, 1)] 7
           emptyModel"]
      ok built.created
    by (simp add: extendModel_def emptyModel_def)
qed

section \<open>The match filter\<close>

text \<open>
  C4. Whenever \<open>stdDistanceThreshold\<close> and \<open>ratioDistanceThreshold\<close> both apply to a raw
  match set, \<open>stdAndRatioDistanceThreshold\<close> applies as well, and the set of its
  survivors is the union of the survivors of the two; so it contains each of them.
\<close>

theorem stdAndRatio_is_union:
  assumes "filterMatches raw stdDistanceThreshold factor ratio = Inr A"
    and "filterMatches raw ratioDistanceThreshold factor ratio = Inr B"
  shows "\<exists>C. filterMatches raw stdAndRatioDistanceThreshold factor ratio = Inr C \<and>
           set C = set A \<union> set B \<and> set A \<subseteq> set C \<and> set B \<subseteq> set C"
proof -
  have A: "A = filter (std_keeps (matches raw)) (matches raw)"
    using assms(1) by (simp add: filterMatches_def)
  have ok: "0 < ratio \<and> ratio \<le> 1" "knnPass raw"
    and B: "B = filter (ratio_keeps ratio) (matches raw)"
    using assms(2) by (auto simp: filterMatches_def split: if_splits)
  let ?C = "filter (\<lambda>c. std_keeps (matches raw) c \<or> ratio_keeps ratio c) (matches raw)"
  have "filterMatches raw stdAndRatioDistanceThreshold factor ratio = Inr ?C"
    using ok by (simp add: filterMatches_def)
  moreover have "set ?C = set A \<union> set B"
    unfolding A B by auto
  ultimately show ?thesis by auto
qed

lemma example_stddev: "stddev (map distance (matches example_matches)) = 1"
  by (simp add: example_matches_def stddev_def mean_def)

lemma example_std_keeps: "std_keeps (matches example_matches) = (\<lambda>c. distance c < 3)"
proof -
  have "min_distance (matches example_matches) = 2"
    by (simp add: example_matches_def)
  then show ?thesis
    by (simp add: std_keeps_def example_stddev fun_eq_iff)
qed

theorem stdAndRatio_is_union_witness:
  "filterMatches example_matches stdDistanceThreshold 2 (1 / 2) =
     Inr [\<lparr>queryIndex = 0, trainIndex = 5, distance = 2, secondDistance = Some 8\<rparr>,
          \<lparr>queryIndex = 1, trainIndex = 3, distance = 2, secondDistance = Some (5 / 2)\<rparr>] \<and>
   filterMatches example_matches ratioDistanceThreshold 2 (1 / 2) =
     Inr [\<lparr>queryIndex = 0, trainIndex = 5, distance = 2, secondDistance = Some 8\<rparr>,
          \<lparr>queryIndex = 2, trainIndex = 3, distance = 4, secondDistance = Some 16\<rparr>] \<and>
   (\<exists>C. filterMatches example_matches stdAndRatioDistanceThreshold 2 (1 / 2) = Inr C \<and>
      set C =
        {\<lparr>queryIndex = 0, trainIndex = 5, distance = 2, secondDistance = Some 8\<rparr>,
         \<lparr>queryIndex = 1, trainIndex = 3, distance = 2, secondDistance = Some (5 / 2)\<rparr>,
         \<lparr>queryIndex = 2, trainIndex = 3, distance = 4, secondDistance = Some 16\<rparr>})"
proof -
  have a: "filterMatches example_matches stdDistanceThreshold 2 (1 / 2) =
     Inr [\<lparr>queryIndex = 0, trainIndex = 5, distance = 2, secondDistance = Some 8\<rparr>,
          \<lparr>queryIndex = 1, trainIndex = 3, distance = 2, secondDistance = Some (5 / 2)\<rparr>]"
    by (simp add: filterMatches_def example_std_keeps, simp add: example_matches_def)
  have b: "filterMatches example_matches ratioDistanceThreshold 2 (1 / 2) =
     Inr [\<lparr>queryIndex = 0, trainIndex = 5, distance = 2, secondDistance = Some 8\<rparr>,
          \<lparr>queryIndex = 2, trainIndex = 3, distance = 4, secondDistance = Some 16\<rparr>]"
    by (simp add: filterMatches_def ratio_keeps_def example_matches_def)
  from stdAndRatio_is_union [OF a b]
  have "\<exists>C. filterMatches example_matches stdAndRatioDistanceThreshold 2 (1 / 2) = Inr C \<and>
      set C =
        {\<lparr>queryIndex = 0, trainIndex = 5, distance = 2, secondDistance = Some 8\<rparr>,
         \<lparr>queryIndex = 1, trainIndex = 3, distance = 2, secondDistance = Some (5 / 2)\<rparr>,
         \<lparr>queryIndex = 2, trainIndex = 3, distance = 4, secondDistance = Some 16\<rparr>}"
    by auto
  with a b show ?thesis by blast
qed

end
